theory Spec2Isabelle
  imports Main "HOL-Library.Multiset"
begin

section \<open>Data model (src/components/USSDSimulator.tsx, lines 31-63)\<close>

text \<open>
  A \<^verbatim>\<open>Date\<close> is its \<^verbatim>\<open>getTime()\<close>: milliseconds since the epoch. Strings are
  \<^typ>\<open>string\<close>; an optional field (\<^verbatim>\<open>updatedAt?\<close>) is an \<^typ>\<open>'a option\<close>.
  Field names follow the source; a name used by two interfaces carries a suffix
  (\<open>_m\<close> for USSDMessage, \<open>_s\<close> for USSDSession).
\<close>

type_synonym date = nat

datatype message_type = Request | Response

record USSDMessage =
  id_m :: string
  type_m :: message_type
  text_m :: string
  timestamp :: date
  sessionId_m :: string

record USSDSession =
  id_s :: string
  messages :: "USSDMessage list"
  isActive :: bool
  startTime :: date
  updatedAt :: "date option"
  phoneNumber_s :: "string option"
  networkCode_s :: "string option"

record USSDConfig =
  endpoint :: string
  sessionId :: string
  phoneNumber :: string
  networkCode :: string
  timeout :: nat

definition defaultConfig :: USSDConfig where
  "defaultConfig =
     \<lparr>endpoint = [], sessionId = [], phoneNumber = ''+1234567890'',
      networkCode = ''001'', timeout = 30000\<rparr>"

text \<open>
  What a \<^verbatim>\<open>catch\<close> clause receives: an \<^verbatim>\<open>Error\<close> object with its message, or any
  other thrown value. A promise that rejects is \<open>Inl\<close> of the thrown value, one that
  fulfils is \<open>Inr\<close> of its result.
\<close>

datatype thrown = JsError string | OtherThrown

text \<open>\<^verbatim>\<open>Number.prototype.toString()\<close> on a non-negative integer: its decimal digits.\<close>

definition digit :: "nat \<Rightarrow> char" where
  "digit d = ''0123456789'' ! d"

function toString :: "nat \<Rightarrow> string" where
  "toString n = (if n < 10 then [digit n] else toString (n div 10) @ [digit (n mod 10)])"
  by pat_completeness auto
termination
  by (relation "measure (\<lambda>n. n)") auto

declare toString.simps [simp del]

section \<open>The Store: a Dexie table keyed by \<^verbatim>\<open>id\<close>\<close>

text \<open>
  Modelled from the spec: the Dexie table behind \<^verbatim>\<open>db.sessions\<close> (package \<^verbatim>\<open>dexie\<close>
  over the browser's IndexedDB; neither is among the sources). Section 4.2 of the
  specification: \<^verbatim>\<open>put\<close> upserts by identifier; \<^verbatim>\<open>get\<close> returns the record or
  "not found"; \<^verbatim>\<open>getAll\<close> returns every record; \<^verbatim>\<open>delete\<close> removes a record and
  deleting an identifier that is not there is not an error; when the underlying storage
  is unavailable every operation fails with a storage-unavailable condition.

  The rows are kept as a list of (key, record) pairs, so that \<^verbatim>\<open>toArray\<close> has an
  order to return; the callers sort what they get. The key of a record is its key
  path \<^verbatim>\<open>id\<close>, passed as the function \<open>key\<close>. A storage that is available accepts
  every operation: a write that fails for lack of space or by an aborted transaction is
  outside this model.
\<close>

datatype 'r table = Unavailable thrown | Table "(string \<times> 'r) list"

text \<open>Modelled from the spec: "upsert by identifier".\<close>

fun upsert :: "string \<Rightarrow> 'r \<Rightarrow> (string \<times> 'r) list \<Rightarrow> (string \<times> 'r) list" where
  "upsert k v [] = [(k, v)]"
| "upsert k v ((k', v') # rows) =
     (if k' = k then (k, v) # rows else (k', v') # upsert k v rows)"

text \<open>Modelled from the spec: \<^verbatim>\<open>put(session)\<close>, upsert by identifier.\<close>

definition table_put :: "('r \<Rightarrow> string) \<Rightarrow> 'r \<Rightarrow> 'r table \<Rightarrow> thrown + 'r table" where
  "table_put key r t =
     (case t of Unavailable e \<Rightarrow> Inl e
      | Table rows \<Rightarrow> Inr (Table (upsert (key r) r rows)))"

text \<open>Modelled from the spec: \<^verbatim>\<open>get(id)\<close> returns the record or "not found".\<close>

definition table_get :: "string \<Rightarrow> 'r table \<Rightarrow> thrown + 'r option" where
  "table_get i t =
     (case t of Unavailable e \<Rightarrow> Inl e
      | Table rows \<Rightarrow> Inr (map_of rows i))"

text \<open>Modelled from the spec: \<^verbatim>\<open>getAll()\<close> returns every record.\<close>

definition table_toArray :: "'r table \<Rightarrow> thrown + 'r list" where
  "table_toArray t =
     (case t of Unavailable e \<Rightarrow> Inl e
      | Table rows \<Rightarrow> Inr (map snd rows))"

text \<open>
  Modelled from the spec: \<^verbatim>\<open>delete(id)\<close> removes a record; deleting an identifier that
  is not there is not an error.
\<close>

definition table_delete :: "string \<Rightarrow> 'r table \<Rightarrow> thrown + 'r table" where
  "table_delete i t =
     (case t of Unavailable e \<Rightarrow> Inl e
      | Table rows \<Rightarrow> Inr (Table (filter (\<lambda>row. fst row \<noteq> i) rows)))"

subsection \<open>The helper functions of src/lib/db.ts (lines 33-48)\<close>

definition getAllSessions :: "'r table \<Rightarrow> thrown + 'r list" where
  "getAllSessions t = table_toArray t"

definition getSession :: "string \<Rightarrow> 'r table \<Rightarrow> thrown + 'r option" where
  "getSession i t = table_get i t"

text \<open>\<^verbatim>\<open>saveSession\<close> awaits the \<^verbatim>\<open>put\<close> and returns \<^verbatim>\<open>session.id\<close>.\<close>

definition saveSession :: "('r \<Rightarrow> string) \<Rightarrow> 'r \<Rightarrow> 'r table \<Rightarrow> thrown + ('r table \<times> string)" where
  "saveSession key session t =
     (case table_put key session t of Inl e \<Rightarrow> Inl e
      | Inr t' \<Rightarrow> Inr (t', key session))"

definition deleteSession :: "string \<Rightarrow> 'r table \<Rightarrow> thrown + 'r table" where
  "deleteSession i t = table_delete i t"

subsection \<open>The hook \<^verbatim>\<open>useIndexedDB\<close> (hooks/useIndexedDB.ts, here src/unnamed/part_001)\<close>

text \<open>
  A promise of the hook can stay pending for ever, so its outcomes are three.
\<close>

datatype 'a promise = Pending | Settled "thrown + 'a"

text \<open>
  The hook's state cells (lines 9-11). \<^verbatim>\<open>db\<close> is the opened database, here its
  \<^verbatim>\<open>sessions\<close> object store, or \<^verbatim>\<open>null\<close>. A callback sees the cells of the render that
  created it; that state is the argument \<open>h\<close> of the functions below.
\<close>

record 'r hookState =
  db_h :: "'r table option"
  isLoading_h :: bool
  error_h :: "thrown option"

text \<open>
  \<^verbatim>\<open>waitForDB\<close> (lines 44-67): resolves with the database when there is one; rejects when
  there is none and loading is over; otherwise it polls the \<^verbatim>\<open>db\<close> and \<^verbatim>\<open>isLoading\<close> of
  its own closure every 100 ms, which never change, and so stays pending.
\<close>

definition waitForDB :: "'r hookState \<Rightarrow> 'r table promise" where
  "waitForDB h =
     (case db_h h of
        Some d \<Rightarrow> Settled (Inr d)
      | None \<Rightarrow>
          if isLoading_h h then Pending
          else Settled (Inl (JsError ''Database not initialized'')))"

text \<open>
  The four operations (lines 70-121): each awaits \<^verbatim>\<open>waitForDB\<close> and settles with its
  request on the object store. The hook's state keeps pointing at the database, which
  a \<^verbatim>\<open>put\<close> or a \<^verbatim>\<open>delete\<close> has changed.
\<close>

definition saveSession_h :: "('r \<Rightarrow> string) \<Rightarrow> 'r \<Rightarrow> 'r hookState \<Rightarrow> 'r hookState promise" where
  "saveSession_h key session h =
     (case waitForDB h of
        Pending \<Rightarrow> Pending
      | Settled (Inl e) \<Rightarrow> Settled (Inl e)
      | Settled (Inr d) \<Rightarrow>
          (case table_put key session d of
             Inl e \<Rightarrow> Settled (Inl e)
           | Inr d' \<Rightarrow> Settled (Inr (h\<lparr>db_h := Some d'\<rparr>))))"

definition getAllSessions_h :: "'r hookState \<Rightarrow> 'r list promise" where
  "getAllSessions_h h =
     (case waitForDB h of
        Pending \<Rightarrow> Pending
      | Settled (Inl e) \<Rightarrow> Settled (Inl e)
      | Settled (Inr d) \<Rightarrow> Settled (table_toArray d))"

definition getSession_h :: "string \<Rightarrow> 'r hookState \<Rightarrow> 'r option promise" where
  "getSession_h i h =
     (case waitForDB h of
        Pending \<Rightarrow> Pending
      | Settled (Inl e) \<Rightarrow> Settled (Inl e)
      | Settled (Inr d) \<Rightarrow> Settled (table_get i d))"

definition deleteSession_h :: "string \<Rightarrow> 'r hookState \<Rightarrow> 'r hookState promise" where
  "deleteSession_h i h =
     (case waitForDB h of
        Pending \<Rightarrow> Pending
      | Settled (Inl e) \<Rightarrow> Settled (Inl e)
      | Settled (Inr d) \<Rightarrow>
          (case table_delete i d of
             Inl e \<Rightarrow> Settled (Inl e)
           | Inr d' \<Rightarrow> Settled (Inr (h\<lparr>db_h := Some d'\<rparr>))))"

section \<open>The Gateway: one \<^verbatim>\<open>fetch\<close> round trip\<close>

text \<open>
  The request body built at lines 159-165 and the response body the gateway is expected
  to send (\<^verbatim>\<open>{ response?: string, message?: string, continueSession?: boolean }\<close>).
  A field that is absent from the body is \<open>None\<close>.
\<close>

record payload =
  sessionID :: string
  userID :: string
  newSession :: bool
  msisdn :: string
  userData :: string

record responseData =
  response :: "string option"
  message :: "string option"
  continueSession :: "bool option"

text \<open>
  What \<^verbatim>\<open>await fetch(...)\<close> and \<^verbatim>\<open>await response.json()\<close> can do: \<^verbatim>\<open>fetch\<close> rejects
  (network failure), or answers with a status and a body; reading the body throws (it is
  not JSON, or it is the JSON value \<^verbatim>\<open>null\<close>, whose property access throws inside the same
  \<^verbatim>\<open>try\<close>), or gives the fields of the object.
\<close>

datatype body = BodyThrows thrown | BodyJson responseData

datatype fetch_result = FetchRejects thrown | FetchResponds nat body

text \<open>\<^verbatim>\<open>response.ok\<close>: the status is in the range 200-299.\<close>

definition ok :: "nat \<Rightarrow> bool" where
  "ok status = (200 \<le> status \<and> status \<le> 299)"

text \<open>
  Lines 168-180: the part of the \<^verbatim>\<open>try\<close> block that obtains \<^verbatim>\<open>responseData\<close>, with
  the value thrown into the \<^verbatim>\<open>catch\<close> clause on the left.
\<close>

definition exchange :: "fetch_result \<Rightarrow> thrown + responseData" where
  "exchange net =
     (case net of
        FetchRejects e \<Rightarrow> Inl e
      | FetchResponds status b \<Rightarrow>
          if \<not> ok status then Inl (JsError (''HTTP error! status: '' @ toString status))
          else (case b of BodyThrows e \<Rightarrow> Inl e | BodyJson d \<Rightarrow> Inr d))"

section \<open>The Session Controller (component \<^verbatim>\<open>USSDSimulator\<close>)\<close>

text \<open>
  The component's state (the six \<^verbatim>\<open>useState\<close> cells of lines 66-71) together with the
  module-level database handle \<^verbatim>\<open>db\<close> (line 29). A handler reads the state of the
  render that created it and runs to completion before the next handler starts (one
  call at a time, section 5 of the specification).
\<close>

record world =
  config :: USSDConfig
  isLoading :: bool
  currentSession :: "USSDSession option"
  sessions :: "USSDSession list"
  showHistory :: bool
  dbError :: "string option"
  db :: "USSDSession table"

text \<open>
  \<^verbatim>\<open>Array.prototype.sort(compare)\<close> is the engine's: it is stable and, for a consistent
  comparator, leaves \<open>a\<close> before \<open>b\<close> only when \<open>compare a b \<le> 0\<close>. It is modelled by a
  stable insertion sort.
\<close>

fun insert_cmp :: "('a \<Rightarrow> 'a \<Rightarrow> int) \<Rightarrow> 'a \<Rightarrow> 'a list \<Rightarrow> 'a list" where
  "insert_cmp compare x [] = [x]"
| "insert_cmp compare x (y # ys) =
     (if compare x y \<le> 0 then x # y # ys else y # insert_cmp compare x ys)"

definition sort_cmp :: "('a \<Rightarrow> 'a \<Rightarrow> int) \<Rightarrow> 'a list \<Rightarrow> 'a list" where
  "sort_cmp compare xs = foldr (insert_cmp compare) xs []"

text \<open>The comparator of \<^verbatim>\<open>loadSessions\<close> (lines 98-102): a missing \<^verbatim>\<open>updatedAt\<close> counts as 0.\<close>

definition compareUpdatedAt :: "USSDSession \<Rightarrow> USSDSession \<Rightarrow> int" where
  "compareUpdatedAt a b =
     (let timeA = (case updatedAt a of Some t \<Rightarrow> int t | None \<Rightarrow> 0);
          timeB = (case updatedAt b of Some t \<Rightarrow> int t | None \<Rightarrow> 0)
      in timeB - timeA)"

text \<open>
  The comparator of the history list (lines 339-342): \<^verbatim>\<open>updatedAt || startTime\<close>. A
  \<^verbatim>\<open>Date\<close> object is truthy, so the fallback is taken exactly when \<^verbatim>\<open>updatedAt\<close> is
  absent.
\<close>

definition effectiveTime :: "USSDSession \<Rightarrow> date" where
  "effectiveTime s = (case updatedAt s of Some t \<Rightarrow> t | None \<Rightarrow> startTime s)"

definition compareHistory :: "USSDSession \<Rightarrow> USSDSession \<Rightarrow> int" where
  "compareHistory a b = int (effectiveTime b) - int (effectiveTime a)"

text \<open>
  \<^verbatim>\<open>loadSessions\<close> (lines 90-113). Its first argument is the \<^verbatim>\<open>isLoading\<close> of the
  closure that calls it. The \<^verbatim>\<open>finally\<close> clause leaves \<^verbatim>\<open>isLoading\<close> false.
\<close>

definition loadSessions :: "bool \<Rightarrow> world \<Rightarrow> world" where
  "loadSessions closureIsLoading w =
     (if closureIsLoading then w
      else (case table_toArray (db w) of
              Inr savedSessions \<Rightarrow>
                w\<lparr>sessions := sort_cmp compareUpdatedAt savedSessions, isLoading := False\<rparr>
            | Inl e \<Rightarrow>
                w\<lparr>dbError := Some ''Failed to load session history. Please refresh the page to try again.'',
                  isLoading := False\<rparr>))"

text \<open>
  The list the history panel shows (lines 338-342): a sorted copy of \<^verbatim>\<open>sessions\<close>.
\<close>

definition historyList :: "world \<Rightarrow> USSDSession list" where
  "historyList w = sort_cmp compareHistory (sessions w)"

text \<open>
  The mount effect (lines 74-88). \<^verbatim>\<open>loadSessions\<close> catches its own errors, so the
  \<^verbatim>\<open>catch\<close> of \<^verbatim>\<open>initializeSessions\<close> is never entered.
\<close>

definition initialWorld :: "USSDSession table \<Rightarrow> world" where
  "initialWorld d =
     \<lparr>config = defaultConfig, isLoading = False, currentSession = None, sessions = [],
      showHistory = False, dbError = None, db = d\<rparr>"

definition initializeSessions :: "USSDSession table \<Rightarrow> world" where
  "initializeSessions d = (loadSessions False (initialWorld d))\<lparr>currentSession := None\<rparr>"

subsection \<open>\<^verbatim>\<open>handleUSSDRequest\<close> (lines 115-234)\<close>

text \<open>
  The clock is read at nine places of the handler (\<^verbatim>\<open>Date.now()\<close>, \<^verbatim>\<open>new Date()\<close>);
  \<open>now k\<close> is the reading at the \<open>k\<close>-th of them in source order: lines 127, 132, 133,
  142, 145, 152, then 184, 187, 196 (or 215, 218, 226 in the \<^verbatim>\<open>catch\<close> clause).
\<close>

definition newSessionRecord :: "(nat \<Rightarrow> date) \<Rightarrow> USSDConfig \<Rightarrow> USSDSession" where
  "newSessionRecord now c =
     \<lparr>id_s = toString (now 0), messages = [], isActive = True, startTime = now 1,
      updatedAt = Some (now 2), phoneNumber_s = Some (phoneNumber c),
      networkCode_s = Some (networkCode c)\<rparr>"

definition requestMessage :: "(nat \<Rightarrow> date) \<Rightarrow> string \<Rightarrow> USSDSession \<Rightarrow> USSDMessage" where
  "requestMessage now input updatedSession =
     \<lparr>id_m = toString (now 3), type_m = Request, text_m = input, timestamp = now 4,
      sessionId_m = id_s updatedSession\<rparr>"

text \<open>
  \<^verbatim>\<open>a || b\<close> on values that are a string or \<^verbatim>\<open>undefined\<close>: \<^verbatim>\<open>a\<close> when it is truthy
  (a non-empty string), else \<^verbatim>\<open>b\<close>.
\<close>

definition js_or :: "string option \<Rightarrow> string option \<Rightarrow> string option" where
  "js_or a b = (case a of None \<Rightarrow> b | Some s \<Rightarrow> if s \<noteq> [] then Some s else b)"

definition js_or_literal :: "string option \<Rightarrow> string \<Rightarrow> string" where
  "js_or_literal a b = (case a of None \<Rightarrow> b | Some s \<Rightarrow> if s \<noteq> [] then s else b)"

text \<open>Line 186: \<^verbatim>\<open>responseData.response || responseData.message || 'No response message'\<close>.\<close>

definition responseText :: "responseData \<Rightarrow> string" where
  "responseText d = js_or_literal (js_or (response d) (message d)) ''No response message''"

definition responseMessage :: "(nat \<Rightarrow> date) \<Rightarrow> responseData \<Rightarrow> USSDSession \<Rightarrow> USSDMessage" where
  "responseMessage now d updatedSession =
     \<lparr>id_m = toString (now 6 + 1), type_m = Response, text_m = responseText d,
      timestamp = now 7, sessionId_m = id_s updatedSession\<rparr>"

text \<open>Lines 192-197; \<^verbatim>\<open>isActive: responseData.continueSession !== false\<close>.\<close>

definition updatedSessionWithResponse ::
  "(nat \<Rightarrow> date) \<Rightarrow> responseData \<Rightarrow> USSDSession \<Rightarrow> USSDSession" where
  "updatedSessionWithResponse now d updatedSession =
     updatedSession
       \<lparr>messages := messages updatedSession @ [responseMessage now d updatedSession],
        isActive := (continueSession d \<noteq> Some False),
        updatedAt := Some (now 8)\<rparr>"

text \<open>Line 217: \<^verbatim>\<open>error instanceof Error ? error.message : 'Unknown error occurred'\<close>.\<close>

definition errorDescription :: "thrown \<Rightarrow> string" where
  "errorDescription e = (case e of JsError m \<Rightarrow> m | OtherThrown \<Rightarrow> ''Unknown error occurred'')"

definition errorMessage :: "(nat \<Rightarrow> date) \<Rightarrow> thrown \<Rightarrow> USSDSession \<Rightarrow> USSDMessage" where
  "errorMessage now e updatedSession =
     \<lparr>id_m = toString (now 6 + 1), type_m = Response,
      text_m = ''Error: '' @ errorDescription e,
      timestamp = now 7, sessionId_m = id_s updatedSession\<rparr>"

definition updatedSessionWithError ::
  "(nat \<Rightarrow> date) \<Rightarrow> thrown \<Rightarrow> USSDSession \<Rightarrow> USSDSession" where
  "updatedSessionWithError now e updatedSession =
     updatedSession
       \<lparr>messages := messages updatedSession @ [errorMessage now e updatedSession],
        isActive := False,
        updatedAt := Some (now 8)\<rparr>"

text \<open>
  What one call did: the state it leaves, how its promise settled (\<open>Inl\<close>: rejected),
  and the body it handed to \<^verbatim>\<open>fetch\<close>, if it called \<^verbatim>\<open>fetch\<close>.
\<close>

record outcome =
  final :: world
  settled :: "thrown + unit"
  sent :: "payload option"

text \<open>
  The \<^verbatim>\<open>catch\<close> clause (lines 206-230) followed by \<^verbatim>\<open>finally\<close> (line 232). The \<^verbatim>\<open>put\<close>
  of line 230 is inside the \<^verbatim>\<open>catch\<close>: when it rejects, the handler's promise rejects after
  \<^verbatim>\<open>finally\<close> has run. (\<^verbatim>\<open>updatedSession\<close> is never null there.)
\<close>

definition catchClause ::
  "(nat \<Rightarrow> date) \<Rightarrow> thrown \<Rightarrow> USSDSession \<Rightarrow> payload \<Rightarrow> world \<Rightarrow> outcome" where
  "catchClause now e updatedSession p w =
     (let withError = updatedSessionWithError now e updatedSession;
          w1 = w\<lparr>currentSession := Some withError\<rparr>
      in (case table_put id_s withError (db w1) of
            Inl e' \<Rightarrow> \<lparr>final = w1\<lparr>isLoading := False\<rparr>, settled = Inl e', sent = Some p\<rparr>
          | Inr d \<Rightarrow> \<lparr>final = w1\<lparr>db := d, isLoading := False\<rparr>, settled = Inr (), sent = Some p\<rparr>))"

text \<open>
  The handler. The \<^verbatim>\<open>put\<close> of line 155 stands before the \<^verbatim>\<open>try\<close>: when it rejects, the
  handler's promise rejects there, and nothing after it runs (no \<^verbatim>\<open>fetch\<close>, no
  \<^verbatim>\<open>finally\<close>). The \<^verbatim>\<open>loadSessions\<close> of line 204 reads the \<^verbatim>\<open>isLoading\<close> of the
  handler's own closure.
\<close>

definition handleUSSDRequest ::
  "(nat \<Rightarrow> date) \<Rightarrow> fetch_result \<Rightarrow> string \<Rightarrow> world \<Rightarrow> outcome" where
  "handleUSSDRequest now net input w =
     (if endpoint (config w) = [] then \<lparr>final = w, settled = Inr (), sent = None\<rparr>
      else
        let isNewSession = (case currentSession w of None \<Rightarrow> True | Some s \<Rightarrow> messages s = []);
            existing = (case currentSession w of
                          None \<Rightarrow> newSessionRecord now (config w)
                        | Some s \<Rightarrow> s);
            updatedSession =
              existing\<lparr>messages := messages existing @ [requestMessage now input existing],
                       updatedAt := Some (now 5)\<rparr>;
            w1 = w\<lparr>isLoading := True, currentSession := Some updatedSession\<rparr>
        in (case table_put id_s updatedSession (db w1) of
              Inl e \<Rightarrow> \<lparr>final = w1, settled = Inl e, sent = None\<rparr>
            | Inr d1 \<Rightarrow>
                (let w2 = w1\<lparr>db := d1\<rparr>;
                     p = \<lparr>sessionID = id_s updatedSession, userID = phoneNumber (config w),
                          newSession = isNewSession, msisdn = phoneNumber (config w),
                          userData = input\<rparr>
                 in (case exchange net of
                       Inl e \<Rightarrow> catchClause now e updatedSession p w2
                     | Inr d \<Rightarrow>
                         (let withResponse = updatedSessionWithResponse now d updatedSession;
                              w3 = w2\<lparr>currentSession := Some withResponse\<rparr>
                          in (case table_put id_s withResponse (db w3) of
                                Inl e \<Rightarrow> catchClause now e updatedSession p w3
                              | Inr d3 \<Rightarrow>
                                  \<lparr>final = (loadSessions (isLoading w) (w3\<lparr>db := d3\<rparr>))
                                             \<lparr>isLoading := False\<rparr>,
                                   settled = Inr (), sent = Some p\<rparr>))))))"

subsection \<open>The other handlers (lines 237-298)\<close>

definition loadSession :: "USSDSession \<Rightarrow> world \<Rightarrow> world" where
  "loadSession session w = w\<lparr>currentSession := Some session, showHistory := False\<rparr>"

definition toggleHistory :: "world \<Rightarrow> world" where
  "toggleHistory w =
     (let willShowHistory = \<not> showHistory w;
          w1 = w\<lparr>showHistory := willShowHistory\<rparr>
      in if willShowHistory then loadSessions (isLoading w) w1 else w1)"

text \<open>A rejected \<^verbatim>\<open>put\<close> or \<^verbatim>\<open>delete\<close> is caught and logged by these handlers.\<close>

definition handleEndSession :: "(nat \<Rightarrow> date) \<Rightarrow> world \<Rightarrow> world" where
  "handleEndSession now w =
     (case currentSession w of
        None \<Rightarrow> w
      | Some cs \<Rightarrow>
          let updatedSession = cs\<lparr>isActive := False, updatedAt := Some (now 0)\<rparr>;
              w1 = w\<lparr>currentSession := Some updatedSession\<rparr>
          in (case table_put id_s updatedSession (db w1) of
                Inl e \<Rightarrow> w1
              | Inr d \<Rightarrow> loadSessions (isLoading w) (w1\<lparr>db := d\<rparr>)))"

definition handleNewSession :: "world \<Rightarrow> world" where
  "handleNewSession w = w\<lparr>currentSession := None\<rparr>"

definition handleClearSession :: "world \<Rightarrow> world" where
  "handleClearSession w =
     (case currentSession w of
        None \<Rightarrow> w
      | Some cs \<Rightarrow>
          (case table_delete (id_s cs) (db w) of
             Inl e \<Rightarrow> w
           | Inr d \<Rightarrow> loadSessions (isLoading w) (w\<lparr>db := d, currentSession := None\<rparr>)))"

definition handleDeleteSession :: "string \<Rightarrow> world \<Rightarrow> world" where
  "handleDeleteSession i w =
     (case table_delete i (db w) of
        Inl e \<Rightarrow> w
      | Inr d \<Rightarrow>
          let w1 = w\<lparr>db := d\<rparr>;
              w2 = (case currentSession w of
                      None \<Rightarrow> w1
                    | Some cs \<Rightarrow> if id_s cs = i then w1\<lparr>currentSession := None\<rparr> else w1)
          in loadSessions (isLoading w) w2)"

section \<open>The dialer (component \<^verbatim>\<open>PhoneDialer\<close>, lines 13-50)\<close>

text \<open>
  \<^verbatim>\<open>String.prototype.trim\<close> removes white space and line terminators from both ends;
  among the code units below 256 these are 9-13, 32 and 160.
\<close>

definition isWhiteSpace :: "char \<Rightarrow> bool" where
  "isWhiteSpace c = ((of_char c :: nat) \<in> {9, 10, 11, 12, 13, 32, 160})"

definition trim :: "string \<Rightarrow> string" where
  "trim s = rev (dropWhile isWhiteSpace (rev (dropWhile isWhiteSpace s)))"

record dialer =
  input_d :: string
  isLoading_d :: bool

text \<open>
  \<^verbatim>\<open>handleSubmit\<close> (form submission) and \<^verbatim>\<open>handleCall\<close> (the Dial button and the Enter
  key) have the same body: \<^verbatim>\<open>onDial\<close> is called only when \<^verbatim>\<open>input.trim()\<close> is truthy;
  the input is cleared when the call fulfils; \<^verbatim>\<open>finally\<close> resets the dialer's own
  \<^verbatim>\<open>isLoading\<close>.
\<close>

definition handleCall ::
  "(string \<Rightarrow> world \<Rightarrow> outcome) \<Rightarrow> dialer \<Rightarrow> world \<Rightarrow> dialer \<times> outcome" where
  "handleCall onDial dl w =
     (if trim (input_d dl) \<noteq> [] then
        let r = onDial (input_d dl) w
        in (case settled r of
              Inr u \<Rightarrow> (dl\<lparr>input_d := [], isLoading_d := False\<rparr>, r)
            | Inl e \<Rightarrow> (dl\<lparr>isLoading_d := False\<rparr>, r))
      else (dl, \<lparr>final = w, settled = Inr (), sent = None\<rparr>))"

definition handleSubmit ::
  "(string \<Rightarrow> world \<Rightarrow> outcome) \<Rightarrow> dialer \<Rightarrow> world \<Rightarrow> dialer \<times> outcome" where
  "handleSubmit onDial dl w =
     (if trim (input_d dl) \<noteq> [] then
        let r = onDial (input_d dl) w
        in (case settled r of
              Inr u \<Rightarrow> (dl\<lparr>input_d := [], isLoading_d := False\<rparr>, r)
            | Inl e \<Rightarrow> (dl\<lparr>isLoading_d := False\<rparr>, r))
      else (dl, \<lparr>final = w, settled = Inr (), sent = None\<rparr>))"

section \<open>User events\<close>

text \<open>
  A run of the application is a sequence of events, each handled to completion. The
  dialer's input and its Dial button are disabled while the controller's \<^verbatim>\<open>isLoading\<close>
  is set (the prop \<^verbatim>\<open>disabled={isLoading}\<close>), so a \<open>Dial\<close> event in that state does
  nothing. The other guards of the user interface (the End button is disabled on an
  ended session, the history entries are only visible while the history is shown) are
  left out: the model allows more runs than the interface does. \<open>LoadSession i\<close> and
  \<open>DeleteSession i\<close> are a click on the \<open>i\<close>-th entry of the history list, and
  \<open>ConfigChange\<close> is \<^verbatim>\<open>setConfig\<close> from the configuration panel.
\<close>

datatype event =
    Dial string "nat \<Rightarrow> date" fetch_result
  | EndSession "nat \<Rightarrow> date"
  | NewSession
  | ClearSession
  | ToggleHistory
  | LoadSession nat
  | DeleteSession nat
  | ConfigChange USSDConfig

definition step :: "world \<Rightarrow> event \<Rightarrow> world" where
  "step w ev =
     (case ev of
        Dial input now net \<Rightarrow>
          if isLoading w then w
          else final (snd (handleCall (handleUSSDRequest now net)
                             \<lparr>input_d = input, isLoading_d = False\<rparr> w))
      | EndSession now \<Rightarrow> handleEndSession now w
      | NewSession \<Rightarrow> handleNewSession w
      | ClearSession \<Rightarrow> handleClearSession w
      | ToggleHistory \<Rightarrow> toggleHistory w
      | LoadSession i \<Rightarrow>
          if i < length (historyList w) then loadSession (historyList w ! i) w else w
      | DeleteSession i \<Rightarrow>
          if i < length (historyList w) then handleDeleteSession (id_s (historyList w ! i)) w
          else w
      | ConfigChange c \<Rightarrow> w\<lparr>config := c\<rparr>)"

definition run :: "world \<Rightarrow> event list \<Rightarrow> world" where
  "run w evs = foldl step w evs"

section \<open>Vocabulary of the properties\<close>

text \<open>The messages of the current session before a call; none when there is no session.\<close>

definition messagesBefore :: "world \<Rightarrow> USSDMessage list" where
  "messagesBefore w = (case currentSession w of None \<Rightarrow> [] | Some s \<Rightarrow> messages s)"

text \<open>
  The session a call works on (the current one, or the one it creates at lines 126-138)
  and that session with the request appended (lines 141-153).
\<close>

definition sessionInUse :: "(nat \<Rightarrow> date) \<Rightarrow> world \<Rightarrow> USSDSession" where
  "sessionInUse now w =
     (case currentSession w of None \<Rightarrow> newSessionRecord now (config w) | Some s \<Rightarrow> s)"

definition withRequest :: "(nat \<Rightarrow> date) \<Rightarrow> string \<Rightarrow> USSDSession \<Rightarrow> USSDSession" where
  "withRequest now input s =
     s\<lparr>messages := messages s @ [requestMessage now input s], updatedAt := Some (now 5)\<rparr>"

text \<open>
  The state of a call while it awaits \<^verbatim>\<open>fetch\<close> (line 168), if it gets there: the
  request is appended and already written to the Store (line 155). A page that is closed
  or reloaded at that point leaves the Store of this state behind.
\<close>

definition awaitingFetch :: "(nat \<Rightarrow> date) \<Rightarrow> string \<Rightarrow> world \<Rightarrow> world option" where
  "awaitingFetch now input w =
     (if endpoint (config w) = [] then None
      else
        let updatedSession = withRequest now input (sessionInUse now w);
            w1 = w\<lparr>isLoading := True, currentSession := Some updatedSession\<rparr>
        in (case table_put id_s updatedSession (db w1) of
              Inl e \<Rightarrow> None
            | Inr d1 \<Rightarrow> Some (w1\<lparr>db := d1\<rparr>)))"

text \<open>The identifier and the active flag of the current session.\<close>

definition sessionStatus :: "world \<Rightarrow> (string \<times> bool) option" where
  "sessionStatus w = map_option (\<lambda>s. (id_s s, isActive s)) (currentSession w)"

text \<open>The messages of the current session as texts and as directions.\<close>

definition transcript :: "world \<Rightarrow> (message_type \<times> string) list" where
  "transcript w = map (\<lambda>m. (type_m m, text_m m)) (messagesBefore w)"

text \<open>
  The response text as the specification words it: \<^verbatim>\<open>response\<close> if present, else
  \<^verbatim>\<open>message\<close> if present, else the literal. It is compared with \<open>responseText\<close>.
\<close>

definition spec_responseText :: "responseData \<Rightarrow> string" where
  "spec_responseText d =
     (case response d of
        Some r \<Rightarrow> r
      | None \<Rightarrow> (case message d of Some m \<Rightarrow> m | None \<Rightarrow> ''No response message''))"

text \<open>Every session the application holds: the current one, the history list, the Store's rows.\<close>

definition storedSessions :: "USSDSession table \<Rightarrow> USSDSession list" where
  "storedSessions d = (case d of Unavailable e \<Rightarrow> [] | Table rows \<Rightarrow> map snd rows)"

definition allSessions :: "world \<Rightarrow> USSDSession list" where
  "allSessions w =
     (case currentSession w of None \<Rightarrow> [] | Some s \<Rightarrow> [s]) @ sessions w @ storedSessions (db w)"







text \<open>Every session of \<open>w'\<close> has the identifier and the messages of a session of \<open>w\<close>.\<close>

definition derived :: "world \<Rightarrow> world \<Rightarrow> bool" where
  "derived w' w =
     (\<forall>s' \<in> set (allSessions w'). \<exists>s \<in> set (allSessions w).
        messages s' = messages s \<and> id_s s' = id_s s)"

section \<open>Concrete scenarios\<close>

definition exampleConfig :: USSDConfig where
  "exampleConfig = defaultConfig\<lparr>endpoint := ''http://x/ussd'', phoneNumber := ''+1'', timeout := 5000\<rparr>"

definition exampleWorld :: world where
  "exampleWorld = (initializeSessions (Table []))\<lparr>config := exampleConfig\<rparr>"

definition brokenWorld :: world where
  "brokenWorld =
     (initializeSessions (Unavailable (JsError ''MissingAPIError'')))\<lparr>config := exampleConfig\<rparr>"

definition exampleClock :: "nat \<Rightarrow> date" where
  "exampleClock k = 1000 + k"

definition laterClock :: "nat \<Rightarrow> date" where
  "laterClock k = 2000 + k"

definition menuBody :: responseData where
  "menuBody = \<lparr>response = Some ''Menu'', message = None, continueSession = Some True\<rparr>"

definition silentBody :: responseData where
  "silentBody = \<lparr>response = Some [], message = None, continueSession = None\<rparr>"

definition http500 :: fetch_result where
  "http500 = FetchResponds 500 (BodyThrows OtherThrown)"

definition thirdClock :: "nat \<Rightarrow> date" where
  "thirdClock k = 3000 + k"

definition examplePayload :: payload where
  "examplePayload =
     \<lparr>sessionID = ''1000'', userID = ''+1'', newSession = True, msisdn = ''+1'',
      userData = ''*123#''\<rparr>"

definition followUpPayload :: payload where
  "followUpPayload =
     \<lparr>sessionID = ''1000'', userID = ''+1'', newSession = False, msisdn = ''+1'',
      userData = ''1''\<rparr>"

definition activeWorld :: world where
  "activeWorld =
     final (handleUSSDRequest exampleClock (FetchResponds 200 (BodyJson menuBody))
              ''*123#'' exampleWorld)"

definition blankDialer :: dialer where
  "blankDialer = \<lparr>input_d = ''   '', isLoading_d = False\<rparr>"

definition emptyDialer :: dialer where
  "emptyDialer = \<lparr>input_d = [], isLoading_d = False\<rparr>"

definition endedWorld :: world where
  "endedWorld =
     handleEndSession laterClock
       (final (handleUSSDRequest exampleClock (FetchResponds 200 (BodyJson menuBody))
                 ''*123#'' exampleWorld))"

definition savedSession :: "string \<Rightarrow> date \<Rightarrow> date option \<Rightarrow> USSDSession" where
  "savedSession i started updated =
     \<lparr>id_s = i, messages = [], isActive = False, startTime = started, updatedAt = updated,
      phoneNumber_s = None, networkCode_s = None\<rparr>"

definition exampleRows :: "(string \<times> USSDSession) list" where
  "exampleRows =
     [(''a'', savedSession ''a'' 10 (Some 20)),
      (''b'', savedSession ''b'' 50 None),
      (''c'', savedSession ''c'' 5 (Some 30))]"

definition exampleEvents :: "event list" where
  "exampleEvents =
     [ConfigChange exampleConfig,
      Dial ''*123#'' exampleClock (FetchResponds 200 (BodyJson menuBody)),
      Dial ''1'' laterClock http500,
      ToggleHistory,
      LoadSession 0,
      Dial ''2'' thirdClock (FetchRejects (JsError ''Failed to fetch''))]"




definition historyWorld :: world where
  "historyWorld = exampleWorld\<lparr>db := Table exampleRows\<rparr>"

definition replacement :: USSDSession where
  "replacement = savedSession ''b'' 7 None"

definition readyHook :: "USSDSession hookState" where
  "readyHook = \<lparr>db_h = Some (Table exampleRows), isLoading_h = False, error_h = None\<rparr>"

section \<open>Unfolding the scenarios and the handlers\<close>

lemmas scenario_defs =
  exampleWorld_def brokenWorld_def exampleConfig_def defaultConfig_def exampleClock_def
  laterClock_def thirdClock_def menuBody_def silentBody_def http500_def examplePayload_def
  followUpPayload_def activeWorld_def endedWorld_def blankDialer_def emptyDialer_def historyWorld_def
  exampleRows_def savedSession_def exampleEvents_def
  initializeSessions_def initialWorld_def

lemmas handler_defs =
  handleUSSDRequest_def catchClause_def loadSessions_def handleEndSession_def
  newSessionRecord_def requestMessage_def responseMessage_def errorMessage_def
  updatedSessionWithResponse_def updatedSessionWithError_def responseText_def js_or_def
  js_or_literal_def errorDescription_def exchange_def ok_def
  table_put_def table_toArray_def sort_cmp_def Let_def
  toString.simps digit_def

lemmas vocabulary_defs =
  messagesBefore_def transcript_def sessionStatus_def sessionInUse_def withRequest_def



section \<open>Facts about one call of \<^verbatim>\<open>handleUSSDRequest\<close>\<close>

lemma messages_sessionInUse: "messages (sessionInUse now w) = messagesBefore w"
  by (simp add: sessionInUse_def messagesBefore_def newSessionRecord_def split: option.splits)

lemma sent_Some_iff:
  "(sent (handleUSSDRequest now net input w) = Some p) =
   (endpoint (config w) \<noteq> [] \<and> (\<exists>rows. db w = Table rows) \<and>
    p = \<lparr>sessionID = id_s (sessionInUse now w), userID = phoneNumber (config w),
          newSession = (messagesBefore w = []), msisdn = phoneNumber (config w),
          userData = input\<rparr>)"
  by (cases "db w")
     (auto simp: handleUSSDRequest_def catchClause_def table_put_def sessionInUse_def
        messagesBefore_def Let_def
      split: sum.splits option.splits)

lemma current_after_exchange:
  assumes "endpoint (config w) \<noteq> []" and "db w = Table rows"
  shows "currentSession (final (handleUSSDRequest now net input w)) =
         Some (case exchange net of
                 Inl e \<Rightarrow> updatedSessionWithError now e (withRequest now input (sessionInUse now w))
               | Inr d \<Rightarrow> updatedSessionWithResponse now d (withRequest now input (sessionInUse now w)))"
  using assms
  by (simp add: handleUSSDRequest_def catchClause_def table_put_def sessionInUse_def
        withRequest_def loadSessions_def table_toArray_def Let_def
      split: sum.splits option.splits)

lemma rejected_put:
  assumes "endpoint (config w) \<noteq> []" and "db w = Unavailable e"
  shows "handleUSSDRequest now net input w =
         \<lparr>final = w\<lparr>isLoading := True,
                      currentSession := Some (withRequest now input (sessionInUse now w))\<rparr>,
          settled = Inl e, sent = None\<rparr>"
  using assms
  by (simp add: handleUSSDRequest_def table_put_def sessionInUse_def withRequest_def Let_def
      split: option.splits)

lemma exchange_failure_cases:
  "(exchange net = Inl e) =
   (net = FetchRejects e
    \<or> (\<exists>status b. net = FetchResponds status b \<and> \<not> ok status
          \<and> e = JsError (''HTTP error! status: '' @ toString status))
    \<or> (\<exists>status. net = FetchResponds status (BodyThrows e) \<and> ok status))"
  by (auto simp: exchange_def split: fetch_result.splits body.splits)

lemma exchange_success_cases:
  "(exchange net = Inr d) = (\<exists>status. net = FetchResponds status (BodyJson d) \<and> ok status)"
  by (auto simp: exchange_def split: fetch_result.splits body.splits)

section \<open>The \<^verbatim>\<open>newSession\<close> flag of the payload\<close>

text \<open>
  Claim C6. Whenever a call hands a payload to \<^verbatim>\<open>fetch\<close>, the payload's \<^verbatim>\<open>newSession\<close>
  is true exactly when the session had no messages before the call; in particular it is
  true when there was no session and the call created one.
\<close>

theorem newSession_iff_no_messages_before:
  assumes "sent (handleUSSDRequest now net input w) = Some p"
  shows "newSession p = (length (messagesBefore w) = 0)
         \<and> (currentSession w = None \<longrightarrow> newSession p)"
  using assms by (auto simp: sent_Some_iff messagesBefore_def)

theorem newSession_iff_no_messages_before_witness:
  "sent (handleUSSDRequest exampleClock (FetchResponds 200 (BodyJson menuBody)) ''*123#''
           exampleWorld) = Some examplePayload
   \<and> length (messagesBefore exampleWorld) = 0 \<and> newSession examplePayload
   \<and> sent (handleUSSDRequest thirdClock (FetchResponds 200 (BodyJson menuBody)) ''1''
           endedWorld) = Some followUpPayload
   \<and> length (messagesBefore endedWorld) = 2 \<and> \<not> newSession followUpPayload"
proof -
  have first: "sent (handleUSSDRequest exampleClock (FetchResponds 200 (BodyJson menuBody))
                 ''*123#'' exampleWorld) = Some examplePayload"
    by (simp add: scenario_defs handler_defs)
  have second: "sent (handleUSSDRequest thirdClock (FetchResponds 200 (BodyJson menuBody))
                  ''1'' endedWorld) = Some followUpPayload"
    by (simp add: scenario_defs handler_defs)
  have before: "length (messagesBefore endedWorld) = 2"
    by (simp add: scenario_defs handler_defs vocabulary_defs)
  have none: "messagesBefore exampleWorld = []"
    by (simp add: scenario_defs handler_defs vocabulary_defs)
  from none newSession_iff_no_messages_before [OF first]
       newSession_iff_no_messages_before [OF second] first second before
  show ?thesis by simp
qed

section \<open>A failed exchange\<close>

text \<open>
  Claim C4. When the exchange fails (\<^verbatim>\<open>fetch\<close> rejects, the status is not 2xx, or reading
  the body throws), the call appends the request and then a response message whose text
  is \<^verbatim>\<open>Error: \<close> followed by the description of the failure, and the session's
  \<^verbatim>\<open>isActive\<close> is false afterwards, whatever it was before.
\<close>

theorem failed_exchange_records_error_and_ends_session:
  assumes "sent (handleUSSDRequest now net input w) = Some p"
    and "net = FetchRejects e
         \<or> (\<exists>status b. net = FetchResponds status b \<and> \<not> ok status
               \<and> e = JsError (''HTTP error! status: '' @ toString status))
         \<or> (\<exists>status. net = FetchResponds status (BodyThrows e) \<and> ok status)"
  shows "\<exists>s rq m. currentSession (final (handleUSSDRequest now net input w)) = Some s
           \<and> messages s = messagesBefore w @ [rq, m]
           \<and> type_m rq = Request \<and> text_m rq = input
           \<and> type_m m = Response \<and> text_m m = ''Error: '' @ errorDescription e
           \<and> isActive s = False"
proof -
  from assms(1) obtain rows where cfg: "endpoint (config w) \<noteq> []" and tab: "db w = Table rows"
    by (auto simp: sent_Some_iff)
  from assms(2) have fail: "exchange net = Inl e"
    by (simp only: exchange_failure_cases)
  let ?us = "withRequest now input (sessionInUse now w)"
  have "currentSession (final (handleUSSDRequest now net input w))
        = Some (updatedSessionWithError now e ?us)"
    using current_after_exchange [OF cfg tab, of now net input] fail by simp
  moreover have "messages (updatedSessionWithError now e ?us)
        = messagesBefore w @ [requestMessage now input (sessionInUse now w), errorMessage now e ?us]"
    by (simp add: updatedSessionWithError_def withRequest_def messages_sessionInUse)
  moreover have "isActive (updatedSessionWithError now e ?us) = False"
    by (simp add: updatedSessionWithError_def)
  ultimately show ?thesis
    by (simp add: requestMessage_def errorMessage_def)
qed

theorem failed_exchange_records_error_and_ends_session_witness:
  "sent (handleUSSDRequest laterClock http500 ''1'' activeWorld) = Some followUpPayload
   \<and> http500 = FetchResponds 500 (BodyThrows OtherThrown) \<and> \<not> ok 500
   \<and> sessionStatus activeWorld = Some (''1000'', True)
   \<and> sessionStatus (final (handleUSSDRequest laterClock http500 ''1'' activeWorld))
       = Some (''1000'', False)
   \<and> transcript (final (handleUSSDRequest laterClock http500 ''1'' activeWorld))
       = [(Request, ''*123#''), (Response, ''Menu''), (Request, ''1''),
          (Response, ''Error: HTTP error! status: 500'')]"
proof -
  have s: "sent (handleUSSDRequest laterClock http500 ''1'' activeWorld) = Some followUpPayload"
    by (simp add: scenario_defs handler_defs)
  have n: "http500 = FetchResponds 500 (BodyThrows OtherThrown) \<and> \<not> ok 500"
    by (simp add: http500_def ok_def)
  have b: "transcript activeWorld = [(Request, ''*123#''), (Response, ''Menu'')]"
    by (simp add: scenario_defs handler_defs vocabulary_defs)
  have a: "sessionStatus activeWorld = Some (''1000'', True)"
    by (simp add: scenario_defs handler_defs vocabulary_defs)
  have i: "map_option id_s (currentSession (final (handleUSSDRequest laterClock http500 ''1'' activeWorld)))
           = Some ''1000''"
    by (simp add: scenario_defs handler_defs)
  have bad: "http500 = FetchRejects (JsError (''HTTP error! status: '' @ toString 500))
         \<or> (\<exists>status b. http500 = FetchResponds status b \<and> \<not> ok status
               \<and> JsError (''HTTP error! status: '' @ toString 500)
                   = JsError (''HTTP error! status: '' @ toString status))
         \<or> (\<exists>status. http500 = FetchResponds status
                 (BodyThrows (JsError (''HTTP error! status: '' @ toString 500))) \<and> ok status)"
    using n by auto
  from failed_exchange_records_error_and_ends_session [OF s bad]
  obtain s' rq m where
    "currentSession (final (handleUSSDRequest laterClock http500 ''1'' activeWorld)) = Some s'"
    "messages s' = messagesBefore activeWorld @ [rq, m]"
    "type_m rq = Request" "text_m rq = ''1''" "type_m m = Response"
    "text_m m = ''Error: '' @ errorDescription (JsError (''HTTP error! status: '' @ toString 500))"
    "isActive s' = False"
    by blast
  with s n a b i show ?thesis
    by (simp add: vocabulary_defs errorDescription_def toString.simps digit_def)
qed

section \<open>A successful exchange\<close>

text \<open>
  Claim C5 as stated fails: the text is chosen with \<^verbatim>\<open>||\<close>, which skips a field that is
  present but empty. A body whose \<^verbatim>\<open>response\<close> is the empty string yields the text
  \<^verbatim>\<open>No response message\<close>, where the claim gives the value of \<^verbatim>\<open>response\<close>, the empty
  string.
\<close>

theorem response_text_counterexample:
  "ok 200 \<and> response silentBody = Some []
   \<and> spec_responseText silentBody = []
   \<and> transcript (final (handleUSSDRequest exampleClock (FetchResponds 200 (BodyJson silentBody))
                           ''*123#'' exampleWorld))
       = [(Request, ''*123#''), (Response, ''No response message'')]
   \<and> ''No response message'' \<noteq> spec_responseText silentBody"
  by (simp add: scenario_defs handler_defs vocabulary_defs spec_responseText_def)

text \<open>
  Claim C5, amended. After a successful exchange (status 2xx, a JSON object as body) the
  call has appended the request and then a response message whose text is \<^verbatim>\<open>response\<close>
  if that field is present and not empty, else \<^verbatim>\<open>message\<close> if present and not empty,
  else \<^verbatim>\<open>No response message\<close>; the session's \<^verbatim>\<open>isActive\<close> is \<^verbatim>\<open>continueSession\<close> when
  the field is present and true when it is absent.
\<close>

theorem successful_exchange_records_response:
  assumes "sent (handleUSSDRequest now net input w) = Some p"
    and "net = FetchResponds status (BodyJson d)" and "ok status"
  shows "\<exists>s rq m. currentSession (final (handleUSSDRequest now net input w)) = Some s
           \<and> messages s = messagesBefore w @ [rq, m]
           \<and> type_m rq = Request \<and> text_m rq = input
           \<and> type_m m = Response
           \<and> text_m m = (case response d of
                           Some (c # cs) \<Rightarrow> c # cs
                         | _ \<Rightarrow> (case message d of
                                   Some (c # cs) \<Rightarrow> c # cs
                                 | _ \<Rightarrow> ''No response message''))
           \<and> isActive s = (case continueSession d of Some b \<Rightarrow> b | None \<Rightarrow> True)"
proof -
  from assms(1) obtain rows where cfg: "endpoint (config w) \<noteq> []" and tab: "db w = Table rows"
    by (auto simp: sent_Some_iff)
  from assms(2,3) have good: "exchange net = Inr d"
    by (auto simp: exchange_success_cases)
  let ?us = "withRequest now input (sessionInUse now w)"
  have "currentSession (final (handleUSSDRequest now net input w))
        = Some (updatedSessionWithResponse now d ?us)"
    using current_after_exchange [OF cfg tab, of now net input] good by simp
  moreover have "messages (updatedSessionWithResponse now d ?us)
        = messagesBefore w @ [requestMessage now input (sessionInUse now w), responseMessage now d ?us]"
    by (simp add: updatedSessionWithResponse_def withRequest_def messages_sessionInUse)
  moreover have "isActive (updatedSessionWithResponse now d ?us)
        = (case continueSession d of Some b \<Rightarrow> b | None \<Rightarrow> True)"
    by (auto simp: updatedSessionWithResponse_def split: option.splits)
  moreover have "text_m (responseMessage now d ?us)
        = (case response d of
             Some (c # cs) \<Rightarrow> c # cs
           | _ \<Rightarrow> (case message d of
                     Some (c # cs) \<Rightarrow> c # cs
                   | _ \<Rightarrow> ''No response message''))"
    by (simp add: responseMessage_def responseText_def js_or_def js_or_literal_def
        split: option.splits list.splits)
  ultimately show ?thesis
    by (simp add: requestMessage_def responseMessage_def)
qed

theorem successful_exchange_records_response_witness:
  "sent (handleUSSDRequest exampleClock (FetchResponds 200 (BodyJson menuBody)) ''*123#''
           exampleWorld) = Some examplePayload
   \<and> ok 200
   \<and> transcript (final (handleUSSDRequest exampleClock (FetchResponds 200 (BodyJson menuBody))
                           ''*123#'' exampleWorld))
       = [(Request, ''*123#''), (Response, ''Menu'')]
   \<and> sessionStatus (final (handleUSSDRequest exampleClock (FetchResponds 200 (BodyJson menuBody))
                           ''*123#'' exampleWorld))
       = Some (''1000'', True)"
proof -
  let ?r = "handleUSSDRequest exampleClock (FetchResponds 200 (BodyJson menuBody)) ''*123#''
              exampleWorld"
  have s: "sent ?r = Some examplePayload"
    by (simp add: scenario_defs handler_defs)
  have k: "ok 200"
    by (simp add: ok_def)
  have b: "messagesBefore exampleWorld = []"
    by (simp add: scenario_defs handler_defs vocabulary_defs)
  have i: "map_option id_s (currentSession (final ?r)) = Some ''1000''"
    by (simp add: scenario_defs handler_defs)
  from successful_exchange_records_response [OF s refl k]
  obtain s' rq m where
    "currentSession (final ?r) = Some s'"
    "messages s' = messagesBefore exampleWorld @ [rq, m]"
    "type_m rq = Request" "text_m rq = ''*123#''" "type_m m = Response"
    "text_m m = (case response menuBody of
                   Some (c # cs) \<Rightarrow> c # cs
                 | _ \<Rightarrow> (case message menuBody of
                           Some (c # cs) \<Rightarrow> c # cs
                         | _ \<Rightarrow> ''No response message''))"
    "isActive s' = (case continueSession menuBody of Some b \<Rightarrow> b | None \<Rightarrow> True)"
    by blast
  with s k b i show ?thesis
    by (simp add: vocabulary_defs menuBody_def)
qed

section \<open>A Store that rejects the write\<close>

text \<open>
  Claim C1 at a failing input: the endpoint is configured, the input is not empty, and
  the Store is unavailable. The \<^verbatim>\<open>put\<close> of line 155 rejects outside the \<^verbatim>\<open>try\<close> block:
  the session holds the request alone, nothing is sent and no response or error message
  follows.
\<close>

theorem submit_on_unavailable_store:
  "endpoint (config brokenWorld) \<noteq> [] \<and> ''*123#'' \<noteq> []
   \<and> transcript brokenWorld = []
   \<and> transcript (final (handleUSSDRequest exampleClock (FetchResponds 200 (BodyJson menuBody))
                           ''*123#'' brokenWorld))
       = [(Request, ''*123#'')]
   \<and> settled (handleUSSDRequest exampleClock (FetchResponds 200 (BodyJson menuBody))
                 ''*123#'' brokenWorld)
       = Inl (JsError ''MissingAPIError'')
   \<and> sent (handleUSSDRequest exampleClock (FetchResponds 200 (BodyJson menuBody))
              ''*123#'' brokenWorld)
       = None"
  by (simp add: scenario_defs handler_defs vocabulary_defs)

text \<open>
  Once \<^verbatim>\<open>isLoading\<close> is set at the start of an event, no handler clears it:
  \<^verbatim>\<open>loadSessions\<close> returns at once, and the dialer is disabled.
\<close>

lemma loadSessions_closure_loading [simp]: "loadSessions True w = w"
  by (simp add: loadSessions_def)

lemma isLoading_step: "isLoading w \<Longrightarrow> isLoading (step w ev)"
  by (cases ev)
     (auto simp: step_def handleEndSession_def handleNewSession_def handleClearSession_def
        handleDeleteSession_def toggleHistory_def loadSession_def Let_def
      split: option.splits sum.splits)

lemma isLoading_run: "isLoading w \<Longrightarrow> isLoading (run w evs)"
  unfolding run_def by (induction evs arbitrary: w) (auto simp: isLoading_step)

text \<open>
  Claim C7 on the code: with an unavailable Store and a configured endpoint the call
  rejects with the Store's error before \<^verbatim>\<open>fetch\<close>; the session keeps the request alone;
  the call leaves \<^verbatim>\<open>dbError\<close> as it was (the warning of the mount effect, if any);
  \<^verbatim>\<open>isLoading\<close> stays set through every later event, so every later \<open>Dial\<close> is ignored.
\<close>

theorem rejected_put_aborts_exchange:
  assumes "endpoint (config w) \<noteq> []" and "db w = Unavailable e"
  shows "settled (handleUSSDRequest now net input w) = Inl e
         \<and> sent (handleUSSDRequest now net input w) = None
         \<and> messagesBefore (final (handleUSSDRequest now net input w))
             = messagesBefore w @ [requestMessage now input (sessionInUse now w)]
         \<and> dbError (final (handleUSSDRequest now net input w)) = dbError w
         \<and> isLoading (run (final (handleUSSDRequest now net input w)) evs)
         \<and> step (run (final (handleUSSDRequest now net input w)) evs) (Dial input' now' net')
             = run (final (handleUSSDRequest now net input w)) evs"
proof -
  let ?r = "handleUSSDRequest now net input w"
  have r: "?r = \<lparr>final = w\<lparr>isLoading := True,
                      currentSession := Some (withRequest now input (sessionInUse now w))\<rparr>,
                 settled = Inl e, sent = None\<rparr>"
    by (rule rejected_put [OF assms])
  have stuck: "isLoading (run (final ?r) evs)"
    by (rule isLoading_run) (simp add: r)
  have "messagesBefore (final ?r) = messagesBefore w @ [requestMessage now input (sessionInUse now w)]"
    by (simp add: r messagesBefore_def withRequest_def messages_sessionInUse)
  moreover have "step (run (final ?r) evs) (Dial input' now' net') = run (final ?r) evs"
    using stuck by (simp add: step_def)
  ultimately show ?thesis
    using stuck by (simp add: r)
qed

theorem rejected_put_aborts_exchange_witness:
  "endpoint (config brokenWorld) \<noteq> [] \<and> db brokenWorld = Unavailable (JsError ''MissingAPIError'')
   \<and> settled (handleUSSDRequest exampleClock http500 ''*123#'' brokenWorld)
       = Inl (JsError ''MissingAPIError'')
   \<and> sent (handleUSSDRequest exampleClock http500 ''*123#'' brokenWorld) = None
   \<and> transcript (final (handleUSSDRequest exampleClock http500 ''*123#'' brokenWorld))
       = [(Request, ''*123#'')]
   \<and> isLoading (run (final (handleUSSDRequest exampleClock http500 ''*123#'' brokenWorld))
                  [ToggleHistory, NewSession])
   \<and> step (run (final (handleUSSDRequest exampleClock http500 ''*123#'' brokenWorld))
               [ToggleHistory, NewSession])
           (Dial ''*123#'' laterClock (FetchResponds 200 (BodyJson menuBody)))
       = run (final (handleUSSDRequest exampleClock http500 ''*123#'' brokenWorld))
           [ToggleHistory, NewSession]"
proof -
  have c: "endpoint (config brokenWorld) \<noteq> []"
    by (simp add: scenario_defs handler_defs)
  have d: "db brokenWorld = Unavailable (JsError ''MissingAPIError'')"
    by (simp add: scenario_defs handler_defs)
  have b: "messagesBefore brokenWorld = []"
    by (simp add: scenario_defs handler_defs vocabulary_defs)
  from rejected_put_aborts_exchange [OF c d, of exampleClock http500 "''*123#''"
      "[ToggleHistory, NewSession]" "''*123#''" laterClock "FetchResponds 200 (BodyJson menuBody)"]
    c d b
  show ?thesis
    by (simp add: transcript_def requestMessage_def)
qed

section \<open>Blank input\<close>

text \<open>
  Claim C2. A submission reaches the controller only through the dialer:
  \<^verbatim>\<open>handleUSSDRequest\<close> is a closure of the component that is passed on as \<^verbatim>\<open>onDial\<close>
  (line 382) and nowhere else, and \<^verbatim>\<open>handleCall\<close> and \<^verbatim>\<open>handleSubmit\<close> call \<^verbatim>\<open>onDial\<close>
  only when \<^verbatim>\<open>input.trim()\<close> is not empty. So for an input that is empty or white
  space a submission creates no session, appends no message, writes nothing to the
  Store (the state and the Store are what they were) and hands nothing to \<^verbatim>\<open>fetch\<close>.
\<close>

theorem blank_input_stops_in_dialer:
  assumes "trim (input_d dl) = []"
  shows "handleCall (handleUSSDRequest now net) dl w
           = (dl, \<lparr>final = w, settled = Inr (), sent = None\<rparr>)
         \<and> handleSubmit (handleUSSDRequest now net) dl w
           = (dl, \<lparr>final = w, settled = Inr (), sent = None\<rparr>)
         \<and> step w (Dial (input_d dl) now net) = w"
  using assms by (simp add: handleCall_def handleSubmit_def step_def)

theorem blank_input_stops_in_dialer_witness:
  "trim (input_d blankDialer) = []
   \<and> handleCall (handleUSSDRequest exampleClock (FetchResponds 200 (BodyJson menuBody)))
        blankDialer exampleWorld
       = (blankDialer, \<lparr>final = exampleWorld, settled = Inr (), sent = None\<rparr>)
   \<and> handleSubmit (handleUSSDRequest exampleClock (FetchResponds 200 (BodyJson menuBody)))
        blankDialer exampleWorld
       = (blankDialer, \<lparr>final = exampleWorld, settled = Inr (), sent = None\<rparr>)
   \<and> step exampleWorld (Dial ''   '' exampleClock (FetchResponds 200 (BodyJson menuBody)))
       = exampleWorld
   \<and> trim (input_d emptyDialer) = []
   \<and> handleCall (handleUSSDRequest exampleClock (FetchResponds 200 (BodyJson menuBody)))
        emptyDialer activeWorld
       = (emptyDialer, \<lparr>final = activeWorld, settled = Inr (), sent = None\<rparr>)
   \<and> step activeWorld (Dial [] exampleClock (FetchResponds 200 (BodyJson menuBody)))
       = activeWorld"
proof -
  have t: "trim (input_d blankDialer) = []"
    by (simp add: blankDialer_def trim_def isWhiteSpace_def)
  have i: "input_d blankDialer = ''   ''"
    by (simp add: blankDialer_def)
  have t': "trim (input_d emptyDialer) = []"
    by (simp add: emptyDialer_def trim_def)
  have i': "input_d emptyDialer = []"
    by (simp add: emptyDialer_def)
  from blank_input_stops_in_dialer [OF t, of exampleClock "FetchResponds 200 (BodyJson menuBody)"
      exampleWorld]
    blank_input_stops_in_dialer [OF t', of exampleClock "FetchResponds 200 (BodyJson menuBody)"
      activeWorld] t i t' i'
  show ?thesis by simp
qed

section \<open>The active flag\<close>

text \<open>
  Claim C3 as stated fails: \<^verbatim>\<open>handleUSSDRequest\<close> does not test \<^verbatim>\<open>isActive\<close>. A session
  ended by \<^verbatim>\<open>handleEndSession\<close> stays the current session; the next exchange on it that
  succeeds sets \<^verbatim>\<open>isActive\<close> to true again, under the same identifier.
\<close>

theorem ended_session_reactivated_counterexample:
  "sessionStatus endedWorld = Some (''1000'', False)
   \<and> sessionStatus (final (handleUSSDRequest thirdClock (FetchResponds 200 (BodyJson menuBody))
                              ''1'' endedWorld))
       = Some (''1000'', True)"
  by (simp add: scenario_defs handler_defs vocabulary_defs)

text \<open>
  Claim C3, amended. On a current session, \<^verbatim>\<open>handleEndSession\<close> leaves \<^verbatim>\<open>isActive\<close>
  false, and an exchange leaves it false when it fails and equal to
  \<^verbatim>\<open>continueSession !== false\<close> when it succeeds, whatever the flag was before; the
  identifier is unchanged by both.
\<close>

theorem isActive_after_endSession_and_submit:
  assumes "currentSession w = Some s"
  shows "sessionStatus (handleEndSession now w) = Some (id_s s, False)
         \<and> (sent (handleUSSDRequest now net input w) = Some p \<longrightarrow>
              sessionStatus (final (handleUSSDRequest now net input w))
              = Some (id_s s, case exchange net of
                                Inl e \<Rightarrow> False
                              | Inr d \<Rightarrow> continueSession d \<noteq> Some False))"
proof -
  have "sessionStatus (handleEndSession now w) = Some (id_s s, False)"
    using assms
    by (simp add: sessionStatus_def handleEndSession_def loadSessions_def Let_def
        split: sum.splits)
  moreover have "sessionStatus (final (handleUSSDRequest now net input w))
        = Some (id_s s, case exchange net of Inl e \<Rightarrow> False
                         | Inr d \<Rightarrow> continueSession d \<noteq> Some False)"
    if "sent (handleUSSDRequest now net input w) = Some p"
  proof -
    from that obtain rows where cfg: "endpoint (config w) \<noteq> []" and tab: "db w = Table rows"
      by (auto simp: sent_Some_iff)
    show ?thesis
      using current_after_exchange [OF cfg tab, of now net input] assms
      by (simp add: sessionStatus_def sessionInUse_def withRequest_def
          updatedSessionWithError_def updatedSessionWithResponse_def split: sum.splits)
  qed
  ultimately show ?thesis by blast
qed

theorem isActive_after_endSession_and_submit_witness:
  "map_option id_s (currentSession activeWorld) = Some ''1000''
   \<and> sessionStatus (handleEndSession laterClock activeWorld) = Some (''1000'', False)
   \<and> sent (handleUSSDRequest thirdClock (FetchResponds 200 (BodyJson menuBody)) ''1'' endedWorld)
       = Some followUpPayload
   \<and> sessionStatus endedWorld = Some (''1000'', False)
   \<and> sessionStatus (final (handleUSSDRequest thirdClock (FetchResponds 200 (BodyJson menuBody))
                              ''1'' endedWorld))
       = Some (''1000'', True)"
proof -
  obtain s where c: "currentSession endedWorld = Some s" and i: "id_s s = ''1000''"
    by (simp add: scenario_defs handler_defs)
  obtain a where ca: "currentSession activeWorld = Some a" and ia: "id_s a = ''1000''"
    by (simp add: scenario_defs handler_defs)
  have st: "sessionStatus endedWorld = Some (''1000'', False)"
    by (simp add: scenario_defs handler_defs vocabulary_defs)
  have s: "sent (handleUSSDRequest thirdClock (FetchResponds 200 (BodyJson menuBody)) ''1''
                   endedWorld) = Some followUpPayload"
    by (simp add: scenario_defs handler_defs)
  have x: "exchange (FetchResponds 200 (BodyJson menuBody)) = Inr menuBody"
    by (simp add: exchange_def ok_def)
  from isActive_after_endSession_and_submit [OF c, of thirdClock
      "FetchResponds 200 (BodyJson menuBody)" "''1''" followUpPayload]
    isActive_after_endSession_and_submit [OF ca, of laterClock]
    s st x i ia ca
  show ?thesis
    by (simp add: menuBody_def)
qed

section \<open>The history list\<close>

text \<open>The sort keeps the elements and, with the history comparator, orders them.\<close>

lemma mset_insert_cmp: "mset (insert_cmp compare x ys) = add_mset x (mset ys)"
  by (induction ys) auto

lemma mset_sort_cmp: "mset (sort_cmp compare xs) = mset xs"
  unfolding sort_cmp_def by (induction xs) (auto simp: mset_insert_cmp)


lemma length_sort_cmp: "length (sort_cmp compare xs) = length xs"
  by (metis mset_sort_cmp size_mset)

lemma set_insert_cmp: "set (insert_cmp compare x ys) = insert x (set ys)"
  by (metis mset_insert_cmp set_mset_add_mset_insert set_mset_mset)

lemma sorted_insert_history:
  "sorted_wrt (\<lambda>a b. effectiveTime b \<le> effectiveTime a) ys \<Longrightarrow>
   sorted_wrt (\<lambda>a b. effectiveTime b \<le> effectiveTime a) (insert_cmp compareHistory x ys)"
proof (induction ys)
  case Nil
  then show ?case by simp
next
  case (Cons y ys)
  show ?case
  proof (cases "compareHistory x y \<le> 0")
    case True
    then have "effectiveTime y \<le> effectiveTime x"
      by (simp add: compareHistory_def)
    with Cons.prems True show ?thesis
      by (auto intro: order_trans)
  next
    case False
    then have "effectiveTime x \<le> effectiveTime y"
      by (simp add: compareHistory_def)
    with Cons False show ?thesis
      by (auto simp: set_insert_cmp)
  qed
qed

lemma sorted_sort_history:
  "sorted_wrt (\<lambda>a b. effectiveTime b \<le> effectiveTime a) (sort_cmp compareHistory xs)"
  unfolding sort_cmp_def by (induction xs) (auto simp: sorted_insert_history)

text \<open>
  Claim C9. The history panel shows the records that \<^verbatim>\<open>toArray\<close> returned, each once,
  ordered by \<^verbatim>\<open>updatedAt\<close> with \<^verbatim>\<open>startTime\<close> standing in where \<^verbatim>\<open>updatedAt\<close> is
  absent, newest first: a record with a later effective time than another stands before
  it. (The sort inside \<^verbatim>\<open>loadSessions\<close> counts a missing \<^verbatim>\<open>updatedAt\<close> as 0; the panel
  sorts its copy again with the \<^verbatim>\<open>startTime\<close> fallback.)
\<close>

theorem history_shows_newest_first:
  assumes "table_toArray (db w) = Inr saved"
  shows "mset (historyList (loadSessions False w)) = mset saved
         \<and> (\<forall>i j. i < length (historyList (loadSessions False w))
                \<and> j < length (historyList (loadSessions False w))
                \<and> effectiveTime (historyList (loadSessions False w) ! j)
                    < effectiveTime (historyList (loadSessions False w) ! i)
                \<longrightarrow> i < j)"
proof -
  let ?shown = "historyList (loadSessions False w)"
  have shown: "?shown = sort_cmp compareHistory (sort_cmp compareUpdatedAt saved)"
    using assms by (simp add: historyList_def loadSessions_def)
  have perm: "mset ?shown = mset saved"
    by (simp add: shown mset_sort_cmp)
  have sorted: "sorted_wrt (\<lambda>a b. effectiveTime b \<le> effectiveTime a) ?shown"
    by (simp add: shown sorted_sort_history)
  have "i < j"
    if "i < length ?shown" "j < length ?shown"
       "effectiveTime (?shown ! j) < effectiveTime (?shown ! i)" for i j
  proof (rule ccontr)
    assume "\<not> i < j"
    with that(3) have "j < i"
      by (cases "i = j") auto
    with sorted that(1) have "effectiveTime (?shown ! i) \<le> effectiveTime (?shown ! j)"
      by (simp add: sorted_wrt_iff_nth_less)
    with that(3) show False by simp
  qed
  with perm show ?thesis by blast
qed

theorem history_shows_newest_first_witness:
  "table_toArray (db historyWorld)
     = Inr [savedSession ''a'' 10 (Some 20), savedSession ''b'' 50 None,
            savedSession ''c'' 5 (Some 30)]
   \<and> map id_s (historyList (loadSessions False historyWorld)) = [''b'', ''c'', ''a'']
   \<and> map effectiveTime (historyList (loadSessions False historyWorld)) = [50, 30, 20]
   \<and> effectiveTime (historyList (loadSessions False historyWorld) ! 2)
       < effectiveTime (historyList (loadSessions False historyWorld) ! 0)
   \<and> (0::nat) < 2"
proof -
  have t: "table_toArray (db historyWorld)
     = Inr [savedSession ''a'' 10 (Some 20), savedSession ''b'' 50 None,
            savedSession ''c'' 5 (Some 30)]"
    by (simp add: historyWorld_def exampleRows_def table_toArray_def)
  have l: "historyList (loadSessions False historyWorld)
     = [savedSession ''b'' 50 None, savedSession ''c'' 5 (Some 30),
        savedSession ''a'' 10 (Some 20)]"
    by (simp add: historyWorld_def exampleRows_def savedSession_def
        historyList_def loadSessions_def table_toArray_def sort_cmp_def
        compareHistory_def compareUpdatedAt_def effectiveTime_def Let_def)
  have len: "length (historyList (loadSessions False historyWorld)) = 3"
    by (simp add: l)
  have e: "effectiveTime (historyList (loadSessions False historyWorld) ! 2)
       < effectiveTime (historyList (loadSessions False historyWorld) ! 0)"
    by (simp add: l savedSession_def effectiveTime_def)
  have ids: "map id_s (historyList (loadSessions False historyWorld)) = [''b'', ''c'', ''a'']"
    by (simp add: l savedSession_def)
  have times: "map effectiveTime (historyList (loadSessions False historyWorld)) = [50, 30, 20]"
    by (simp add: l savedSession_def effectiveTime_def)
  have order: "(0::nat) < 2"
    by (rule history_shows_newest_first [OF t, THEN conjunct2, rule_format, of 0 2])
       (simp add: len e)
  from t ids times e order show ?thesis
    by blast
qed

section \<open>The laws of the Store\<close>

lemma map_of_upsert: "map_of (upsert k v rows) k = Some v"
  by (induction rows) auto

lemma map_of_filter_out: "map_of (filter (\<lambda>row. fst row \<noteq> i) rows) i = None"
  by (induction rows) auto

lemma filter_absent: "map_of rows i = None \<Longrightarrow> filter (\<lambda>row. fst row \<noteq> i) rows = rows"
  by (induction rows) (auto split: if_splits)

lemma put_then_get: "table_put key s t = Inr t' \<Longrightarrow> table_get (key s) t' = Inr (Some s)"
  by (auto simp: table_put_def table_get_def map_of_upsert split: table.splits)

lemma delete_then_get: "table_delete i t = Inr t' \<Longrightarrow> table_get i t' = Inr None"
  by (auto simp: table_delete_def table_get_def map_of_filter_out split: table.splits)

lemma delete_absent: "table_get i t = Inr None \<Longrightarrow> table_delete i t = Inr t"
  by (auto simp: table_delete_def table_get_def filter_absent split: table.splits)

text \<open>
  The laws wherever an operation has succeeded, for the helpers of \<^verbatim>\<open>db.ts\<close> and for the
  operations of the hook.
\<close>

lemma settled_store_laws:
  "(saveSession key s t = Inr (t1, k) \<longrightarrow> k = key s \<and> getSession (key s) t1 = Inr (Some s))
   \<and> (deleteSession i t = Inr t2 \<longrightarrow> getSession i t2 = Inr None \<and> deleteSession i t2 = Inr t2)
   \<and> (getSession i t = Inr None \<longrightarrow> deleteSession i t = Inr t)
   \<and> (saveSession_h key s h = Settled (Inr h1) \<longrightarrow> getSession_h (key s) h1 = Settled (Inr (Some s)))
   \<and> (deleteSession_h i h = Settled (Inr h2) \<longrightarrow>
        getSession_h i h2 = Settled (Inr None) \<and> deleteSession_h i h2 = Settled (Inr h2))
   \<and> (getSession_h i h = Settled (Inr None) \<longrightarrow> deleteSession_h i h = Settled (Inr h))"
proof (intro conjI impI)
  assume "saveSession key s t = Inr (t1, k)"
  then have "table_put key s t = Inr t1" and k: "k = key s"
    by (auto simp: saveSession_def split: sum.splits)
  then show "k = key s" and "getSession (key s) t1 = Inr (Some s)"
    by (simp_all add: getSession_def put_then_get)
next
  assume "deleteSession i t = Inr t2"
  then have d: "table_delete i t = Inr t2"
    by (simp add: deleteSession_def)
  then show g: "getSession i t2 = Inr None"
    by (simp add: getSession_def delete_then_get)
  then show "deleteSession i t2 = Inr t2"
    by (simp add: getSession_def deleteSession_def delete_absent)
next
  assume "getSession i t = Inr None"
  then show "deleteSession i t = Inr t"
    by (simp add: getSession_def deleteSession_def delete_absent)
next
  assume "saveSession_h key s h = Settled (Inr h1)"
  then obtain d d' where "table_put key s d = Inr d'" and "h1 = h\<lparr>db_h := Some d'\<rparr>"
    by (auto simp: saveSession_h_def waitForDB_def
        split: promise.splits sum.splits option.splits if_splits)
  then show "getSession_h (key s) h1 = Settled (Inr (Some s))"
    by (simp add: getSession_h_def waitForDB_def put_then_get)
next
  assume "deleteSession_h i h = Settled (Inr h2)"
  then obtain d d' where "table_delete i d = Inr d'" and h2: "h2 = h\<lparr>db_h := Some d'\<rparr>"
    by (auto simp: deleteSession_h_def waitForDB_def
        split: promise.splits sum.splits option.splits if_splits)
  then have g: "table_get i d' = Inr None"
    by (simp add: delete_then_get)
  then show "getSession_h i h2 = Settled (Inr None)"
    by (simp add: h2 getSession_h_def waitForDB_def)
  from g show "deleteSession_h i h2 = Settled (Inr h2)"
    by (simp add: h2 deleteSession_h_def waitForDB_def delete_absent)
next
  assume "getSession_h i h = Settled (Inr None)"
  then obtain d where "db_h h = Some d" and "table_get i d = Inr None"
    by (auto simp: getSession_h_def waitForDB_def
        split: promise.splits sum.splits option.splits if_splits)
  then show "deleteSession_h i h = Settled (Inr h)"
    by (simp add: deleteSession_h_def waitForDB_def delete_absent)
qed

text \<open>
  On a Store that is there, the operations do succeed: every \<^verbatim>\<open>put\<close>, \<^verbatim>\<open>get\<close> and
  \<^verbatim>\<open>delete\<close> settles with its result. A hook without a database rejects, or stays
  pending while its closure still says \<^verbatim>\<open>isLoading\<close>.
\<close>

lemma helpers_settle:
  assumes "t = Table rows"
  shows "\<exists>t1. saveSession key s t = Inr (t1, key s) \<and> getSession (key s) t1 = Inr (Some s)"
    and "\<exists>t2. deleteSession i t = Inr t2 \<and> getSession i t2 = Inr None"
  using assms
  by (simp_all add: saveSession_def deleteSession_def getSession_def table_put_def
      table_delete_def table_get_def map_of_upsert map_of_filter_out)

lemma hook_settles:
  assumes "db_h h = Some (Table rows)"
  shows "\<exists>h1. saveSession_h key s h = Settled (Inr h1)
              \<and> getSession_h (key s) h1 = Settled (Inr (Some s))"
    and "\<exists>h2. deleteSession_h i h = Settled (Inr h2) \<and> getSession_h i h2 = Settled (Inr None)"
    and "getSession_h i h = Settled (Inr (map_of rows i))"
  using assms
  by (simp_all add: saveSession_h_def deleteSession_h_def getSession_h_def waitForDB_def
      table_put_def table_delete_def table_get_def map_of_upsert map_of_filter_out)

lemma hook_without_database:
  assumes "db_h h = None"
  shows "deleteSession_h i h =
           (if isLoading_h h then Pending
            else Settled (Inl (JsError ''Database not initialized'')))"
  using assms by (simp add: deleteSession_h_def waitForDB_def)

text \<open>
  Claim C8. For every record \<open>s\<close> and identifier \<open>i\<close>, on a Store that is available:
  \<^verbatim>\<open>put\<close> of \<open>s\<close> succeeds and a \<^verbatim>\<open>get\<close> of its identifier then returns \<open>s\<close>;
  \<^verbatim>\<open>delete\<close> of \<open>i\<close> succeeds and a \<^verbatim>\<open>get\<close> of \<open>i\<close> then returns "not found";
  deleting an identifier that is not in the Store succeeds and leaves the Store as it
  was, so that deleting twice is deleting once. This holds for the helpers of \<^verbatim>\<open>db.ts\<close>
  on an available table and for the operations of the hook once it holds its database;
  and wherever one of these operations has succeeded at all, the same laws hold.
\<close>

theorem store_round_trip:
  "(saveSession key s t = Inr (t1, k) \<longrightarrow> k = key s \<and> getSession (key s) t1 = Inr (Some s))
   \<and> (deleteSession i t = Inr t2 \<longrightarrow> getSession i t2 = Inr None \<and> deleteSession i t2 = Inr t2)
   \<and> (getSession i t = Inr None \<longrightarrow> deleteSession i t = Inr t)
   \<and> (saveSession_h key s h = Settled (Inr h1) \<longrightarrow> getSession_h (key s) h1 = Settled (Inr (Some s)))
   \<and> (deleteSession_h i h = Settled (Inr h2) \<longrightarrow>
        getSession_h i h2 = Settled (Inr None) \<and> deleteSession_h i h2 = Settled (Inr h2))
   \<and> (getSession_h i h = Settled (Inr None) \<longrightarrow> deleteSession_h i h = Settled (Inr h))
   \<and> (t = Table rows \<longrightarrow>
        (\<exists>t3. saveSession key s t = Inr (t3, key s) \<and> getSession (key s) t3 = Inr (Some s))
        \<and> (\<exists>t4. deleteSession i t = Inr t4 \<and> getSession i t4 = Inr None))
   \<and> (db_h h = Some (Table rows) \<longrightarrow>
        (\<exists>h3. saveSession_h key s h = Settled (Inr h3)
              \<and> getSession_h (key s) h3 = Settled (Inr (Some s)))
        \<and> (\<exists>h4. deleteSession_h i h = Settled (Inr h4)
              \<and> getSession_h i h4 = Settled (Inr None))
        \<and> getSession_h i h = Settled (Inr (map_of rows i)))"
  using settled_store_laws [of key s t t1 k i t2 h h1 h2]
    helpers_settle(1) [of t rows key s] helpers_settle(2) [of t rows i]
    hook_settles(1) [of h rows key s] hook_settles(2) [of h rows i]
    hook_settles(3) [of h rows i]
  by blast

theorem store_round_trip_witness:
  "saveSession id_s replacement (Table exampleRows)
     = Inr (Table (upsert ''b'' replacement exampleRows), ''b'')
   \<and> getSession ''b'' (Table (upsert ''b'' replacement exampleRows)) = Inr (Some replacement)
   \<and> getSession ''a'' (Table exampleRows) = Inr (Some (savedSession ''a'' 10 (Some 20)))
   \<and> deleteSession ''a'' (Table exampleRows) = Inr (Table (tl exampleRows))
   \<and> getSession ''a'' (Table (tl exampleRows)) = Inr None
   \<and> deleteSession ''a'' (Table (tl exampleRows)) = Inr (Table (tl exampleRows))
   \<and> getSession ''z'' (Table exampleRows) = Inr None
   \<and> deleteSession ''z'' (Table exampleRows) = Inr (Table exampleRows)
   \<and> saveSession_h id_s replacement readyHook
     = Settled (Inr (readyHook\<lparr>db_h := Some (Table (upsert ''b'' replacement exampleRows))\<rparr>))
   \<and> getSession_h ''b'' (readyHook\<lparr>db_h := Some (Table (upsert ''b'' replacement exampleRows))\<rparr>)
     = Settled (Inr (Some replacement))
   \<and> getSession_h ''a'' readyHook = Settled (Inr (Some (savedSession ''a'' 10 (Some 20))))
   \<and> deleteSession_h ''a'' readyHook
     = Settled (Inr (readyHook\<lparr>db_h := Some (Table (tl exampleRows))\<rparr>))
   \<and> getSession_h ''a'' (readyHook\<lparr>db_h := Some (Table (tl exampleRows))\<rparr>)
     = Settled (Inr None)
   \<and> deleteSession_h ''a'' (readyHook\<lparr>db_h := Some (Table (tl exampleRows))\<rparr>)
     = Settled (Inr (readyHook\<lparr>db_h := Some (Table (tl exampleRows))\<rparr>))"
proof -
  have k: "id_s replacement = ''b''"
    by (simp add: replacement_def savedSession_def)
  have p: "saveSession id_s replacement (Table exampleRows)
     = Inr (Table (upsert ''b'' replacement exampleRows), ''b'')"
    by (simp add: saveSession_def table_put_def k)
  have g: "getSession ''a'' (Table exampleRows) = Inr (Some (savedSession ''a'' 10 (Some 20)))"
    by (simp add: getSession_def table_get_def exampleRows_def)
  have d: "deleteSession ''a'' (Table exampleRows) = Inr (Table (tl exampleRows))"
    by (simp add: deleteSession_def table_delete_def exampleRows_def)
  have z: "getSession ''z'' (Table exampleRows) = Inr None"
    by (simp add: getSession_def table_get_def exampleRows_def)
  have r: "db_h readyHook = Some (Table exampleRows)"
    by (simp add: readyHook_def)
  have ph: "saveSession_h id_s replacement readyHook
     = Settled (Inr (readyHook\<lparr>db_h := Some (Table (upsert ''b'' replacement exampleRows))\<rparr>))"
    by (simp add: saveSession_h_def waitForDB_def readyHook_def table_put_def k)
  have dh: "deleteSession_h ''a'' readyHook
     = Settled (Inr (readyHook\<lparr>db_h := Some (Table (tl exampleRows))\<rparr>))"
    by (simp add: deleteSession_h_def waitForDB_def readyHook_def table_delete_def
        exampleRows_def)
  have m: "map_of exampleRows ''a'' = Some (savedSession ''a'' 10 (Some 20))"
    by (simp add: exampleRows_def)
  note first = store_round_trip [where key = id_s and s = replacement and t = "Table exampleRows"
      and ?t1.0 = "Table (upsert ''b'' replacement exampleRows)" and k = "''b''"
      and i = "''a''" and ?t2.0 = "Table (tl exampleRows)" and h = readyHook
      and ?h1.0 = "readyHook\<lparr>db_h := Some (Table (upsert ''b'' replacement exampleRows))\<rparr>"
      and ?h2.0 = "readyHook\<lparr>db_h := Some (Table (tl exampleRows))\<rparr>"
      and rows = exampleRows]
  note second = store_round_trip [where i = "''z''" and t = "Table exampleRows"]
  from first second p g d z r ph dh m k show ?thesis
    by simp
qed

section \<open>The shape of every transcript\<close>








text \<open>Writes to the Store add at most the record written.\<close>

lemma upsert_upsert: "upsert k v' (upsert k v rows) = upsert k v' rows"
  by (induction rows) auto

lemma set_upsert: "p \<in> set (upsert k v rows) \<Longrightarrow> snd p = v \<or> p \<in> set rows"
  by (induction rows) (auto split: if_splits)

lemma storedSessions_put:
  assumes "table_put id_s s d = Inr d'"
  shows "set (storedSessions d') \<subseteq> insert s (set (storedSessions d))"
proof -
  from assms obtain rows where d: "d = Table rows" and d': "d' = Table (upsert (id_s s) s rows)"
    by (auto simp: table_put_def split: table.splits)
  show ?thesis
    using set_upsert [of _ "id_s s" s rows]
    by (fastforce simp: d d' storedSessions_def)
qed

lemma storedSessions_put_put:
  assumes "table_put id_s s d = Inr d'" and "table_put id_s s' d' = Inr d''"
    and "id_s s' = id_s s"
  shows "set (storedSessions d'') \<subseteq> insert s' (set (storedSessions d))"
proof -
  from assms(1) obtain rows where d: "d = Table rows" and d': "d' = Table (upsert (id_s s) s rows)"
    by (auto simp: table_put_def split: table.splits)
  from assms(2,3) have "d'' = Table (upsert (id_s s) s' rows)"
    by (simp add: d' table_put_def upsert_upsert)
  then have "table_put id_s s' d = Inr d''"
    using assms(3) by (simp add: d table_put_def)
  then show ?thesis
    by (rule storedSessions_put)
qed




lemma loadSessions_fields [simp]:
  "currentSession (loadSessions il w) = currentSession w"
  "db (loadSessions il w) = db w"
  "isLoading (loadSessions il w) = (il \<and> isLoading w)"
  by (auto simp: loadSessions_def split: sum.splits)



lemma derived_refl [simp]: "derived w w"
  by (auto simp: derived_def)
















text \<open>Ownership needs no whole exchanges: every handler keeps it.\<close>

lemma awaitingFetch_iff_sent:
  "(awaitingFetch now input w \<noteq> None) = (\<exists>p. sent (handleUSSDRequest now net input w) = Some p)"
  by (cases "db w")
     (auto simp: awaitingFetch_def sent_Some_iff table_put_def Let_def)















end
